theory Spec2Isabelle
  imports Main
begin

section \<open>Values shared by the endpoints\<close>

text \<open>
  A Go \<open>error\<close> is represented by its message; \<open>nil\<close> is \<open>None\<close> of \<open>error option\<close>.
  Times are seconds on an abstract clock. A Go call that may panic returns an \<open>outcome\<close>.
\<close>

type_synonym error = string
type_synonym time = int
type_synonym bytes = string

datatype 'a outcome = Panic | Done 'a

abbreviation StatusBadRequest :: nat where "StatusBadRequest \<equiv> 400"
abbreviation StatusUnauthorized :: nat where "StatusUnauthorized \<equiv> 401"
abbreviation StatusNotFound :: nat where "StatusNotFound \<equiv> 404"
abbreviation StatusTooManyRequests :: nat where "StatusTooManyRequests \<equiv> 429"
abbreviation StatusInternalServerError :: nat where "StatusInternalServerError \<equiv> 500"

subsection \<open>Request and response payloads (the JSON structs of the three packages)\<close>

record LoginCredential =
  lc_Username :: string
  lc_Passphrase :: string
  lc_Period :: string

record StoredCredential =
  st_Hash :: bytes
  st_Salt :: bytes

record SessionCredential =
  sc_Secret :: string
  sc_Expiration :: string

record BlogResponse =
  bg_ID :: string
  bg_Title :: string
  bg_Subtitle :: string
  bg_Tag :: string
  bg_Body :: string
  bg_Created :: string
  bg_Updated :: string

record BlogPost =
  bp_Title :: string
  bp_Subtitle :: string
  bp_Tag :: string
  bp_Body :: string

record BlogPostResponse =
  bpr_ID :: string
  bpr_Title :: string
  bpr_Subtitle :: string
  bpr_Tag :: string
  bpr_Body :: string
  bpr_Created :: string
  bpr_Updated :: string

record BlogPut =
  bu_ID :: string
  bu_Title :: string
  bu_Subtitle :: string
  bu_Tag :: string
  bu_Body :: string

record BlogPutResponse =
  bur_ID :: string
  bur_Title :: string
  bur_Subtitle :: string
  bur_Tag :: string
  bur_Updated :: string
  bur_Body :: string

record BlogDelete =
  bd_ID :: string

record GetResponse =
  gr_Body :: string
  gr_Created :: string
  gr_Updated :: string

record StaticPost =
  sp_Name :: string
  sp_Body :: string

record StaticPostResponse =
  spr_Name :: string
  spr_Body :: string
  spr_Created :: string
  spr_Updated :: string

text \<open>
  \<open>auth.AuthData[T]\<close> is declared in service/auth (not among the sources); the handlers
  read its fields \<open>Username\<close>, \<open>Secret\<close> and \<open>Data\<close>. The static \<open>Post\<close> writes
  \<open>post.Name\<close> and \<open>post.Body\<close> in its response, read here as \<open>post.Data.Name\<close> and
  \<open>post.Data.Body\<close>.
\<close>

record 'a AuthData =
  ad_Username :: string
  ad_Secret :: string
  ad_Data :: 'a

datatype payload =
    JSession SessionCredential
  | JBlog BlogResponse
  | JBlogPost BlogPostResponse
  | JBlogPut BlogPutResponse
  | JPage GetResponse
  | JStaticPost StaticPostResponse

text \<open>
  \<open>route.Result\<close> (declared in package route, not among the sources): the status the
  handler sets through its \<open>fail\<close> closure and the buffer \<open>Marshal\<close> writes.
\<close>

record Result =
  Status :: nat
  Buffer :: "payload option"

text \<open>
  The request as a handler reads it: the outcome of \<open>ioutil.ReadAll(rq.Body)\<close>, the
  query parameter \<open>id\<close>, the path value \<open>name\<close>, and the origin address stored in the
  context under \<open>user.UserIPKey\<close>.
\<close>

record request =
  rq_Body :: "error + bytes"
  rq_QueryId :: string
  rq_PathName :: string
  rq_IP :: string

text \<open>
  Library functions the handlers call and whose inner working no property here depends
  on: \<open>strconv.Atoi\<close>, \<open>strconv.FormatInt(_, 10)\<close>, \<open>time.Time.Format\<close>,
  the driver's rendering of a stored time scanned into a string,
  \<open>auth.Compare\<close> (an abstract one-way comparison) and \<open>json.Unmarshal\<close> at each of the
  target types.
\<close>

record lib =
  Atoi :: "string \<Rightarrow> error + int"
  FormatInt :: "int \<Rightarrow> string"
  Format :: "time \<Rightarrow> string \<Rightarrow> string"
  ScanTime :: "time \<Rightarrow> string"
  Compare :: "string \<Rightarrow> bytes \<Rightarrow> bytes \<Rightarrow> bool"
  UnmarshalLogin :: "bytes \<Rightarrow> error + LoginCredential"
  UnmarshalBlogPost :: "bytes \<Rightarrow> error + BlogPost AuthData"
  UnmarshalBlogPut :: "bytes \<Rightarrow> error + BlogPut AuthData"
  UnmarshalBlogDelete :: "bytes \<Rightarrow> error + BlogDelete AuthData"
  UnmarshalStaticPost :: "bytes \<Rightarrow> error + StaticPost AuthData"

definition TimeFormat :: string where
  "TimeFormat = ''2006-01-02 15:04:05''"

section \<open>The data store\<close>

text \<open>
  The tables the SQL text of the handlers names: \<open>page_content\<close> (ContentTable of both
  the blog and the static package), \<open>blog_pages\<close> and \<open>static_pages\<close> (their
  IndexTables), \<open>users\<close> and \<open>credentials\<close> (login).
\<close>

record content_row =
  pc_id :: int
  pc_created :: time
  pc_updated :: time
  pc_body :: string

record blog_row =
  bl_id :: int
  bl_title :: string
  bl_subtitle :: string
  bl_tag :: string
  bl_content_id :: int

record static_row =
  sr_url_hash :: string
  sr_content_id :: int

record user_row =
  us_id :: int
  us_username :: string

record credential_row =
  cd_user_id :: int
  cd_hash :: bytes
  cd_salt :: bytes

text \<open>The statements and queries the handlers send, one constructor per SQL text.\<close>

datatype query =
    SelectBlog int
  | SelectPage string
  | SelectCredential string

datatype stmt =
    InsertContent time time string
  | InsertBlogRecord string string string int
  | InsertStaticRecord string int
  | UpdateBlog string string time string string
  | DeleteBlog string

datatype dbop =
    OpQuery query
  | OpScan
  | OpBegin
  | OpExec stmt
  | OpCommit
  | OpRollback
  | OpLastInsertId
  | OpRowsAffected

text \<open>
  \<open>sql.Result\<close>: both of its methods return a number or an error.
\<close>

record sql_result =
  LastInsertId :: "error + int"
  RowsAffected :: "error + int"

text \<open>
  The store: its tables, the two auto-increment counters, the store's own functions
  (\<open>md5\<close> of the static page name, and the coercion of a string parameter compared with
  the integer key \<open>blog_pages.id\<close>), and \<open>fault\<close>, which says which operations fail
  with an infrastructure error.
\<close>

record database =
  page_content :: "content_row list"
  blog_pages :: "blog_row list"
  static_pages :: "static_row list"
  users :: "user_row list"
  credentials :: "credential_row list"
  content_seq :: int
  blog_seq :: int
  md5 :: "string \<Rightarrow> string"
  key_of :: "string \<Rightarrow> int option"
  fault :: "dbop \<Rightarrow> error option"

section \<open>The authentication service and the service state\<close>

text \<open>
  Modelled from the spec: the Session \<open>{identity, secret, expiration}\<close> and the state of
  service/auth (not among the sources): the penalty flag of each origin, the sessions
  addressed by \<open>(origin, identity)\<close>, the source of fresh secrets and the policy that
  clamps a requested period.
\<close>

record Session =
  ss_Identity :: string
  ss_Secret :: string
  ss_Expiration :: time

record auth =
  penalty :: "string \<rightharpoonup> bool"
  sessions :: "(string \<times> string) \<rightharpoonup> Session"
  secrets :: "nat \<Rightarrow> string"
  drawn :: nat
  clamp_period :: "string \<Rightarrow> time"

text \<open>
  Every call a handler makes on the services is recorded, oldest first, so that
  properties about which calls happen, and in which order, can be stated. A statement
  is recorded with the result object it returned (\<open>None\<close> for \<open>nil\<close>).
\<close>

datatype event =
    EvPenalised string bool
  | EvPenalise string
  | EvNoPenalty string
  | EvAuthenticate string string
  | EvAuthorized string string string "error option"
  | EvQuery query
  | EvBegin
  | EvTxExec stmt "sql_result option"
  | EvCommit
  | EvRollback
  | EvConnExec stmt "sql_result option"
  | EvPrintln string

record service =
  Auth :: auth
  Database :: database
  clock :: time
  calls :: "event list"

definition emit :: "event \<Rightarrow> service \<Rightarrow> service" where
  "emit e s = s\<lparr>calls := calls s @ [e]\<rparr>"

text \<open>
  Modelled from the spec: the PenaltyTracker of service/auth (not among the sources).
  \<open>penalised(origin)\<close> is true if the origin is currently blocked, \<open>penalise(origin)\<close>
  sets the origin's flag, \<open>clear(origin)\<close> (\<open>NoPenalty\<close> in the handler) removes it; the
  flag is a binary gate with no decay and no attempt counter.
\<close>

definition Penalised :: "string \<Rightarrow> service \<Rightarrow> bool \<times> service" where
  "Penalised ip s =
     (let b = (penalty (Auth s) ip = Some True) in (b, emit (EvPenalised ip b) s))"

definition Penalise :: "string \<Rightarrow> service \<Rightarrow> service" where
  "Penalise ip s =
     emit (EvPenalise ip) (s\<lparr>Auth := (Auth s)\<lparr>penalty := (penalty (Auth s))(ip \<mapsto> True)\<rparr>\<rparr>)"

definition NoPenalty :: "string \<Rightarrow> service \<Rightarrow> service" where
  "NoPenalty ip s =
     emit (EvNoPenalty ip) (s\<lparr>Auth := (Auth s)\<lparr>penalty := (penalty (Auth s))(ip := None)\<rparr>\<rparr>)"

definition emptySession :: Session where
  "emptySession = \<lparr>ss_Identity = [], ss_Secret = [], ss_Expiration = 0\<rparr>"

text \<open>
  Modelled from the spec: \<open>Authenticate\<close> of service/auth (not among the sources).
  It invokes the caller's \<open>verify\<close> closure; an infrastructure error is propagated
  without touching the penalty state; \<open>(false, nil)\<close> gives \<open>(emptySession, false, nil)\<close>;
  \<open>(true, nil)\<close> issues a session with a fresh secret and
  \<open>expiration = now + period\<close>, the period clamped by policy, and gives
  \<open>(session, true, nil)\<close>. Penalising and clearing are left to the caller.
\<close>

definition Authenticate ::
  "string \<Rightarrow> string \<Rightarrow> string \<Rightarrow> (service \<Rightarrow> (bool \<times> error option) \<times> service) \<Rightarrow> service
     \<Rightarrow> (Session \<times> bool \<times> error option) \<times> service" where
  "Authenticate ip identity period verify s =
     (case verify (emit (EvAuthenticate ip identity) s) of
        ((_, Some e), s1) \<Rightarrow> ((emptySession, False, Some e), s1)
      | ((False, None), s1) \<Rightarrow> ((emptySession, False, None), s1)
      | ((True, None), s1) \<Rightarrow>
          (let a = Auth s1;
               session = \<lparr>ss_Identity = identity, ss_Secret = secrets a (drawn a),
                          ss_Expiration = clock s1 + clamp_period a period\<rparr>
           in ((session, True, None),
               s1\<lparr>Auth := a\<lparr>sessions := (sessions a)((ip, identity) \<mapsto> session),
                              drawn := Suc (drawn a)\<rparr>\<rparr>)))"

text \<open>
  Modelled from the spec: \<open>Authorized\<close> of service/auth (not among the sources). It looks
  up the session of \<open>(origin, identity)\<close> and fails with an "unauthorized" error if there
  is none, if the secret does not match, or if \<open>now > expiration\<close>.
\<close>

definition Authorized :: "string \<Rightarrow> string \<Rightarrow> string \<Rightarrow> service \<Rightarrow> error option \<times> service" where
  "Authorized ip identity secret s =
     (let r = (case sessions (Auth s) (ip, identity) of
                 None \<Rightarrow> Some ''unauthorized''
               | Some session \<Rightarrow>
                   if ss_Secret session \<noteq> secret \<or> clock s > ss_Expiration session
                   then Some ''unauthorized'' else None)
      in (r, emit (EvAuthorized ip identity secret r) s))"

section \<open>Operations of the data store\<close>

text \<open>
  \<open>DB.Query\<close> with the three SELECT texts of the handlers. Each is an inner join of an
  index table with its content (or of users with credentials) filtered by the
  parameter; the rows come back in table order.
\<close>

definition select_blog :: "database \<Rightarrow> int \<Rightarrow> (blog_row \<times> content_row) list" where
  "select_blog d i =
     [(a, b). a \<leftarrow> blog_pages d, b \<leftarrow> page_content d, bl_content_id a = pc_id b \<and> bl_id a = i]"

definition select_page :: "database \<Rightarrow> string \<Rightarrow> content_row list" where
  "select_page d name =
     [a. a \<leftarrow> page_content d, b \<leftarrow> static_pages d,
         pc_id a = sr_content_id b \<and> sr_url_hash b = md5 d name]"

definition select_credential :: "database \<Rightarrow> string \<Rightarrow> credential_row list" where
  "select_credential d name =
     [b. a \<leftarrow> users d, b \<leftarrow> credentials d, us_id a = cd_user_id b \<and> us_username a = name]"

definition Query :: "query \<Rightarrow> service \<Rightarrow> error option \<times> service" where
  "Query q s = (fault (Database s) (OpQuery q), emit (EvQuery q) s)"

definition Scan :: "service \<Rightarrow> error option" where
  "Scan s = fault (Database s) OpScan"

definition Println :: "string \<Rightarrow> service \<Rightarrow> service" where
  "Println msg s = emit (EvPrintln msg) s"

section \<open>The login endpoint\<close>

definition fail :: "error \<Rightarrow> nat \<Rightarrow> Result \<Rightarrow> error option outcome \<times> Result" where
  "fail err status re = (Done (Some err), re\<lparr>Status := status\<rparr>)"

text \<open>
  Modelled from the spec: \<open>Result.Marshal\<close> of package route (not among the sources).
  Response serialization is outside the spec; by the handlers' comment it writes the
  payload to the buffer and returns any encoding error, which is nil for these structs
  of strings.
\<close>

definition Marshal :: "payload \<Rightarrow> Result \<Rightarrow> error option outcome \<times> Result" where
  "Marshal p re = (Done None, re\<lparr>Buffer := Some p\<rparr>)"

text \<open>The closure \<open>doAuth\<close> of the login \<open>Post\<close>.\<close>

definition doAuth :: "lib \<Rightarrow> LoginCredential \<Rightarrow> service \<Rightarrow> (bool \<times> error option) \<times> service" where
  "doAuth L login s =
     (case Query (SelectCredential (lc_Username login)) s of
        (Some err, s1) \<Rightarrow> ((False, Some err), s1)
      | (None, s1) \<Rightarrow>
          (case select_credential (Database s1) (lc_Username login) of
             [] \<Rightarrow> ((False, None), Println ''No account'' s1)
           | row # _ \<Rightarrow>
               (case Scan s1 of
                  Some err \<Rightarrow> ((False, Some err), s1)
                | None \<Rightarrow>
                    (let stored = \<lparr>st_Hash = cd_hash row, st_Salt = cd_salt row\<rparr>;
                         s2 = Println ''Comparing credentials ...'' s1
                     in ((Compare L (lc_Passphrase login) (st_Salt stored) (st_Hash stored),
                          None), s2)))))"

text \<open>
  The login \<open>Post\<close>. Its \<open>Printf\<close> before the response is recorded as one printed line,
  without the text of \<open>re\<close>.
\<close>

definition login_Post ::
  "lib \<Rightarrow> request \<Rightarrow> Result \<Rightarrow> service \<Rightarrow> (error option outcome \<times> Result) \<times> service" where
  "login_Post L rq re s =
     (let ip = rq_IP rq in
      case rq_Body rq of
        Inl err \<Rightarrow> (fail err StatusInternalServerError re, s)
      | Inr body \<Rightarrow>
          (case UnmarshalLogin L body of
             Inl err \<Rightarrow> (fail err StatusBadRequest re, s)
           | Inr login \<Rightarrow>
               (case Penalised ip s of
                  (True, s1) \<Rightarrow> (fail ''Try again later'' StatusTooManyRequests re, s1)
                | (False, s1) \<Rightarrow>
                    (case Authenticate ip (lc_Username login) (lc_Period login)
                            (doAuth L login) s1 of
                       ((session, ok, Some err), s2) \<Rightarrow>
                         (fail err StatusInternalServerError re, s2)
                     | ((session, ok, None), s2) \<Rightarrow>
                         if ok then
                           (let s3 = NoPenalty ip s2;
                                s4 = Println ''Response should be OK'' s3
                            in (Marshal (JSession
                                  \<lparr>sc_Secret = ss_Secret session,
                                   sc_Expiration = Format L (ss_Expiration session) TimeFormat\<rparr>)
                                  re, s4))
                         else
                           (let s3 = Penalise ip s2
                            in (fail ''Bad credentials'' StatusUnauthorized re, s3))))))"

section \<open>Statements, transactions and connections\<close>

text \<open>
  The result object of a statement: the generated identifier and the number of rows
  affected, each replaced by an error where the store is set to fail that read.
\<close>

definition mk_result :: "database \<Rightarrow> int \<Rightarrow> int \<Rightarrow> sql_result" where
  "mk_result d lid n =
     \<lparr>LastInsertId = (case fault d OpLastInsertId of Some e \<Rightarrow> Inl e | None \<Rightarrow> Inr lid),
      RowsAffected = (case fault d OpRowsAffected of Some e \<Rightarrow> Inl e | None \<Rightarrow> Inr n)\<rparr>"

definition changed :: "'a list \<Rightarrow> 'a list \<Rightarrow> int" where
  "changed old new = int (length (filter (\<lambda>(x, y). x \<noteq> y) (zip old new)))"

text \<open>Rows of \<open>blog_pages AS a INNER JOIN page_content AS b ON a.content_id = b.id WHERE a.id = ?\<close>.\<close>

definition hit_a :: "database \<Rightarrow> string \<Rightarrow> blog_row \<Rightarrow> bool" where
  "hit_a d ID a =
     (key_of d ID = Some (bl_id a) \<and> list_ex (\<lambda>b. bl_content_id a = pc_id b) (page_content d))"

definition hit_b :: "database \<Rightarrow> string \<Rightarrow> content_row \<Rightarrow> bool" where
  "hit_b d ID b =
     list_ex (\<lambda>a. key_of d ID = Some (bl_id a) \<and> bl_content_id a = pc_id b) (blog_pages d)"

text \<open>
  The effect of each statement on the tables, with the result it reports:
  \<^item> the two INSERTs into tables with a generated key report that key;
  \<^item> the UPDATE writes \<open>a.title\<close>, \<open>a.subtitle\<close>, \<open>b.updated\<close> and \<open>b.body\<close> of the
    joined rows and reports the rows it changed;
  \<^item> the DELETE removes the joined rows of both tables and reports how many.
\<close>

fun apply_stmt :: "stmt \<Rightarrow> database \<Rightarrow> sql_result \<times> database" where
  "apply_stmt (InsertContent created updated body) d =
     (let i = content_seq d
      in (mk_result d i 1,
          d\<lparr>page_content := page_content d @
               [\<lparr>pc_id = i, pc_created = created, pc_updated = updated, pc_body = body\<rparr>],
            content_seq := i + 1\<rparr>))"
| "apply_stmt (InsertBlogRecord title subtitle tag content_id) d =
     (let i = blog_seq d
      in (mk_result d i 1,
          d\<lparr>blog_pages := blog_pages d @
               [\<lparr>bl_id = i, bl_title = title, bl_subtitle = subtitle, bl_tag = tag,
                 bl_content_id = content_id\<rparr>],
            blog_seq := i + 1\<rparr>))"
| "apply_stmt (InsertStaticRecord name content_id) d =
     (mk_result d 0 1,
      d\<lparr>static_pages := static_pages d @
           [\<lparr>sr_url_hash = md5 d name, sr_content_id = content_id\<rparr>]\<rparr>)"
| "apply_stmt (UpdateBlog title subtitle updated body ID) d =
     (let A = map (\<lambda>a. if hit_a d ID a then a\<lparr>bl_title := title, bl_subtitle := subtitle\<rparr>
                        else a) (blog_pages d);
          B = map (\<lambda>b. if hit_b d ID b then b\<lparr>pc_updated := updated, pc_body := body\<rparr>
                        else b) (page_content d)
      in (mk_result d 0 (changed (blog_pages d) A + changed (page_content d) B),
          d\<lparr>blog_pages := A, page_content := B\<rparr>))"
| "apply_stmt (DeleteBlog ID) d =
     (let A = filter (\<lambda>a. \<not> hit_a d ID a) (blog_pages d);
          B = filter (\<lambda>b. \<not> hit_b d ID b) (page_content d)
      in (mk_result d 0
            (int (length (blog_pages d) - length A) + int (length (page_content d) - length B)),
          d\<lparr>blog_pages := A, page_content := B\<rparr>))"

text \<open>
  \<open>ExecContext\<close> on a transaction or a connection: \<open>(nil, err)\<close> when the store fails the
  statement, \<open>(result, nil)\<close> otherwise.
\<close>

definition ExecContext ::
  "(stmt \<Rightarrow> sql_result option \<Rightarrow> event) \<Rightarrow> stmt \<Rightarrow> service
     \<Rightarrow> (sql_result option \<times> error option) \<times> service" where
  "ExecContext ev q s =
     (case fault (Database s) (OpExec q) of
        Some err \<Rightarrow> ((None, Some err), emit (ev q None) s)
      | None \<Rightarrow>
          (case apply_stmt q (Database s) of
             (r, d) \<Rightarrow> ((Some r, None), emit (ev q (Some r)) (s\<lparr>Database := d\<rparr>))))"

type_synonym step =
  "sql_result option \<Rightarrow> service \<Rightarrow> (sql_result option \<times> error option) outcome \<times> service"

text \<open>
  Modelled from the spec: the TransactionSequencer \<open>Database.Transaction\<close> of
  service/database (not among the sources). It opens one atomic unit, executes the
  steps in the order supplied, passing \<open>nil\<close> to the first step and each step's result
  to the next; the first failing step aborts the sequence, the unit is rolled back and
  the error returned (a failure of the roll-back itself is surfaced); if all steps
  succeed the unit is committed and the last step's result returned.
\<close>

fun run_steps ::
  "step list \<Rightarrow> sql_result option \<Rightarrow> service
     \<Rightarrow> (sql_result option \<times> error option) outcome \<times> service" where
  "run_steps [] prior s = (Done (prior, None), s)"
| "run_steps (f # fs) prior s =
     (case f prior s of
        (Panic, s1) \<Rightarrow> (Panic, s1)
      | (Done (r, Some err), s1) \<Rightarrow> (Done (None, Some err), s1)
      | (Done (r, None), s1) \<Rightarrow> run_steps fs r s1)"

definition rollback :: "service \<Rightarrow> service \<Rightarrow> service" where
  "rollback s0 s1 = (emit EvRollback s1)\<lparr>Database := Database s0\<rparr>"

definition Transaction ::
  "step list \<Rightarrow> service \<Rightarrow> (sql_result option \<times> error option) outcome \<times> service" where
  "Transaction steps s =
     (let s0 = emit EvBegin s in
      case fault (Database s) OpBegin of
        Some err \<Rightarrow> (Done (None, Some err), s0)
      | None \<Rightarrow>
          (case run_steps steps None s0 of
             (Panic, s1) \<Rightarrow> (Panic, rollback s s1)
           | (Done (r, Some err), s1) \<Rightarrow>
               (case fault (Database s) OpRollback of
                  Some err' \<Rightarrow> (Done (None, Some err'), rollback s s1)
                | None \<Rightarrow> (Done (None, Some err), rollback s s1))
           | (Done (r, None), s1) \<Rightarrow>
               (case fault (Database s) OpCommit of
                  Some err \<Rightarrow> (Done (None, Some err), rollback s s1)
                | None \<Rightarrow> (Done (r, None), emit EvCommit s1))))"

text \<open>
  Modelled from the spec: the ConnectionExecutor \<open>Database.Connection\<close> of
  service/database (not among the sources). It executes exactly one operation, passed a
  \<open>nil\<close> prior result, without an enclosing transaction, and returns what the operation
  returns.
\<close>

definition Connection ::
  "step \<Rightarrow> service \<Rightarrow> (sql_result option \<times> error option) outcome \<times> service" where
  "Connection f s = f None s"

section \<open>The blog endpoint\<close>

definition blog_Get ::
  "lib \<Rightarrow> request \<Rightarrow> Result \<Rightarrow> service \<Rightarrow> (error option outcome \<times> Result) \<times> service" where
  "blog_Get L rq re s =
     (case Atoi L (rq_QueryId rq) of
        Inl _ \<Rightarrow> (fail ''Invalid query parameter'' StatusBadRequest re, s)
      | Inr blog_id \<Rightarrow>
          (case Query (SelectBlog blog_id) s of
             (Some err, s1) \<Rightarrow> (fail err StatusInternalServerError re, s1)
           | (None, s1) \<Rightarrow>
               (case select_blog (Database s1) blog_id of
                  [] \<Rightarrow>
                    (fail (''Blog %!s(int='' @ FormatInt L blog_id @ '') not found'')
                       StatusNotFound re, s1)
                | (a, b) # _ \<Rightarrow>
                    (case Scan s1 of
                       Some err \<Rightarrow> (fail err StatusInternalServerError re, s1)
                     | None \<Rightarrow>
                         (Marshal (JBlog
                            \<lparr>bg_ID = FormatInt L (bl_id a), bg_Title = bl_title a,
                             bg_Subtitle = bl_subtitle a, bg_Tag = bl_tag a,
                             bg_Body = pc_body b, bg_Created = ScanTime L (pc_created b),
                             bg_Updated = ScanTime L (pc_updated b)\<rparr>) re, s1)))))"

text \<open>The two closures of the blog \<open>Post\<close>.\<close>

definition insertBody :: "time \<Rightarrow> string \<Rightarrow> step" where
  "insertBody timeStamp body lastResult s =
     (case ExecContext EvTxExec (InsertContent timeStamp timeStamp body) s of
        (r, s1) \<Rightarrow> (Done r, s1))"

definition insertRecord :: "BlogPost \<Rightarrow> step" where
  "insertRecord post lastResult s =
     (case lastResult of
        None \<Rightarrow> (Panic, s)
      | Some lr \<Rightarrow>
          (case LastInsertId lr of
             Inl err \<Rightarrow> (Done (None, Some err), s)
           | Inr i \<Rightarrow>
               (case ExecContext EvTxExec
                       (InsertBlogRecord (bp_Title post) (bp_Subtitle post) (bp_Tag post) i) s of
                  (r, s1) \<Rightarrow> (Done r, s1))))"

definition blog_Post ::
  "lib \<Rightarrow> request \<Rightarrow> Result \<Rightarrow> service \<Rightarrow> (error option outcome \<times> Result) \<times> service" where
  "blog_Post L rq re s =
     (let ip = rq_IP rq; timeStamp = clock s in
      case rq_Body rq of
        Inl err \<Rightarrow> (fail err StatusInternalServerError re, s)
      | Inr body \<Rightarrow>
          (case UnmarshalBlogPost L body of
             Inl err \<Rightarrow> (fail err StatusBadRequest re, s)
           | Inr post \<Rightarrow>
               (case Authorized ip (ad_Username post) (ad_Secret post) s of
                  (Some err, s1) \<Rightarrow> (fail err StatusUnauthorized re, s1)
                | (None, s1) \<Rightarrow>
                    (case Transaction [insertBody timeStamp (bp_Body (ad_Data post)),
                                       insertRecord (ad_Data post)] s1 of
                       (Panic, s2) \<Rightarrow> ((Panic, re), s2)
                     | (Done (r, Some err), s2) \<Rightarrow> (fail err StatusInternalServerError re, s2)
                     | (Done (None, None), s2) \<Rightarrow> ((Panic, re), s2)
                     | (Done (Some r, None), s2) \<Rightarrow>
                         (case LastInsertId r of
                            Inl err \<Rightarrow> (fail err StatusInternalServerError re, s2)
                          | Inr i \<Rightarrow>
                              (Marshal (JBlogPost
                                 \<lparr>bpr_ID = FormatInt L i,
                                  bpr_Title = bp_Title (ad_Data post),
                                  bpr_Subtitle = bp_Subtitle (ad_Data post),
                                  bpr_Tag = bp_Tag (ad_Data post),
                                  bpr_Body = bp_Body (ad_Data post),
                                  bpr_Created = Format L timeStamp TimeFormat,
                                  bpr_Updated = Format L timeStamp TimeFormat\<rparr>) re, s2))))))"

text \<open>The closure of the blog \<open>Put\<close>.\<close>

definition updateRecord :: "time \<Rightarrow> BlogPut \<Rightarrow> step" where
  "updateRecord timeStamp post lastResult s =
     (case ExecContext EvConnExec
             (UpdateBlog (bu_Title post) (bu_Subtitle post) timeStamp (bu_Body post)
                (bu_ID post)) s of
        (r, s1) \<Rightarrow> (Done r, s1))"

definition blog_Put ::
  "lib \<Rightarrow> request \<Rightarrow> Result \<Rightarrow> service \<Rightarrow> (error option outcome \<times> Result) \<times> service" where
  "blog_Put L rq re s =
     (let ip = rq_IP rq; timeStamp = clock s in
      case rq_Body rq of
        Inl err \<Rightarrow> (fail err StatusInternalServerError re, s)
      | Inr body \<Rightarrow>
          (case UnmarshalBlogPut L body of
             Inl err \<Rightarrow> (fail err StatusBadRequest re, s)
           | Inr post \<Rightarrow>
               (case Authorized ip (ad_Username post) (ad_Secret post) s of
                  (Some err, s1) \<Rightarrow> (fail err StatusUnauthorized re, s1)
                | (None, s1) \<Rightarrow>
                    (case Connection (updateRecord timeStamp (ad_Data post)) s1 of
                       (Panic, s2) \<Rightarrow> ((Panic, re), s2)
                     | (Done (r, Some err), s2) \<Rightarrow> (fail err StatusInternalServerError re, s2)
                     | (Done (None, None), s2) \<Rightarrow> ((Panic, re), s2)
                     | (Done (Some r, None), s2) \<Rightarrow>
                         (case RowsAffected r of
                            Inl err \<Rightarrow> (fail err StatusInternalServerError re, s2)
                          | Inr n \<Rightarrow>
                              if 0 = n then
                                (fail ''Unexpected database result (no rows modified)''
                                   StatusInternalServerError re, s2)
                              else
                                (Marshal (JBlogPut
                                   \<lparr>bur_ID = bu_ID (ad_Data post),
                                    bur_Title = bu_Title (ad_Data post),
                                    bur_Subtitle = bu_Subtitle (ad_Data post),
                                    bur_Tag = bu_Tag (ad_Data post),
                                    bur_Updated = Format L timeStamp TimeFormat,
                                    bur_Body = bu_Body (ad_Data post)\<rparr>) re, s2))))))"

text \<open>The closure of the blog \<open>Delete\<close>.\<close>

definition deleteRecord :: "BlogDelete \<Rightarrow> step" where
  "deleteRecord post lastResult s =
     (case ExecContext EvConnExec (DeleteBlog (bd_ID post)) s of
        (r, s1) \<Rightarrow> (Done r, s1))"

text \<open>
  In \<open>Delete\<close> the three calls of \<open>fail\<close> after the authorization check are statements,
  not \<open>return fail(...)\<close>: each sets the status and its error is dropped, control goes
  on, and the handler ends with \<open>return nil\<close>. Calling \<open>RowsAffected\<close> on a nil
  \<open>sql.Result\<close> panics.
\<close>

definition blog_Delete ::
  "lib \<Rightarrow> request \<Rightarrow> Result \<Rightarrow> service \<Rightarrow> (error option outcome \<times> Result) \<times> service" where
  "blog_Delete L rq re s =
     (let ip = rq_IP rq in
      case rq_Body rq of
        Inl err \<Rightarrow> (fail err StatusInternalServerError re, s)
      | Inr body \<Rightarrow>
          (case UnmarshalBlogDelete L body of
             Inl err \<Rightarrow> (fail err StatusBadRequest re, s)
           | Inr post \<Rightarrow>
               (case Authorized ip (ad_Username post) (ad_Secret post) s of
                  (Some err, s1) \<Rightarrow> (fail err StatusUnauthorized re, s1)
                | (None, s1) \<Rightarrow>
                    (case Connection (deleteRecord (ad_Data post)) s1 of
                       (Panic, s2) \<Rightarrow> ((Panic, re), s2)
                     | (Done (r, err), s2) \<Rightarrow>
                         (let re1 = (case err of
                                       Some e \<Rightarrow> snd (fail e StatusInternalServerError re)
                                     | None \<Rightarrow> re)
                          in case r of
                               None \<Rightarrow> ((Panic, re1), s2)
                             | Some res \<Rightarrow>
                                 (let re2 =
                                    (case RowsAffected res of
                                       Inl e \<Rightarrow> snd (fail e StatusInternalServerError re1)
                                     | Inr n \<Rightarrow>
                                         if 2 \<noteq> n then
                                           snd (fail (''Unexpected database result (expected 2 rows affected, got ''
                                                        @ FormatInt L n @ '')'')
                                                  StatusInternalServerError re1)
                                         else re1)
                                  in ((Done None, re2), s2)))))))"

section \<open>The static endpoint\<close>

definition static_Get ::
  "lib \<Rightarrow> request \<Rightarrow> Result \<Rightarrow> service \<Rightarrow> (error option outcome \<times> Result) \<times> service" where
  "static_Get L rq re s =
     (let name = rq_PathName rq in
      case Query (SelectPage name) s of
        (Some err, s1) \<Rightarrow> (fail err StatusInternalServerError re, s1)
      | (None, s1) \<Rightarrow>
          (case select_page (Database s1) name of
             [] \<Rightarrow> (fail (''Page '' @ name @ '' not found'') StatusNotFound re, s1)
           | a # _ \<Rightarrow>
               (case Scan s1 of
                  Some err \<Rightarrow> (fail err StatusInternalServerError re, s1)
                | None \<Rightarrow>
                    (Marshal (JPage
                       \<lparr>gr_Body = pc_body a, gr_Created = ScanTime L (pc_created a),
                        gr_Updated = ScanTime L (pc_updated a)\<rparr>) re, s1))))"

text \<open>
  The second closure of the static \<open>Post\<close> (the first is \<open>insertBody\<close>, with the same
  text as in the blog package).
\<close>

definition insertStaticRecord :: "StaticPost \<Rightarrow> step" where
  "insertStaticRecord post lastResult s =
     (case lastResult of
        None \<Rightarrow> (Panic, s)
      | Some lr \<Rightarrow>
          (case LastInsertId lr of
             Inl err \<Rightarrow> (Done (None, Some err), s)
           | Inr i \<Rightarrow>
               (case ExecContext EvTxExec (InsertStaticRecord (sp_Name post) i) s of
                  (r, s1) \<Rightarrow> (Done r, s1))))"

definition static_Post ::
  "lib \<Rightarrow> request \<Rightarrow> Result \<Rightarrow> service \<Rightarrow> (error option outcome \<times> Result) \<times> service" where
  "static_Post L rq re s =
     (let ip = rq_IP rq; timeStamp = clock s in
      case rq_Body rq of
        Inl err \<Rightarrow> (fail err StatusInternalServerError re, s)
      | Inr body \<Rightarrow>
          (case UnmarshalStaticPost L body of
             Inl err \<Rightarrow> (fail err StatusBadRequest re, s)
           | Inr post \<Rightarrow>
               (case Authorized ip (ad_Username post) (ad_Secret post) s of
                  (Some err, s1) \<Rightarrow> (fail err StatusUnauthorized re, s1)
                | (None, s1) \<Rightarrow>
                    (case Transaction [insertBody timeStamp (sp_Body (ad_Data post)),
                                       insertStaticRecord (ad_Data post)] s1 of
                       (Panic, s2) \<Rightarrow> ((Panic, re), s2)
                     | (Done (r, Some err), s2) \<Rightarrow> (fail err StatusInternalServerError re, s2)
                     | (Done (r, None), s2) \<Rightarrow>
                         (Marshal (JStaticPost
                            \<lparr>spr_Name = sp_Name (ad_Data post),
                             spr_Body = sp_Body (ad_Data post),
                             spr_Created = Format L timeStamp TimeFormat,
                             spr_Updated = Format L timeStamp TimeFormat\<rparr>) re, s2)))))"

section \<open>Vocabulary of the properties\<close>

text \<open>
  The calls a handler run adds to the record, and the kinds of call the properties
  speak about: calls that change the penalty state, and calls on the data store.
\<close>

definition new_calls :: "service \<Rightarrow> service \<Rightarrow> event list" where
  "new_calls s s' = drop (length (calls s)) (calls s')"

fun penalty_call :: "event \<Rightarrow> bool" where
  "penalty_call (EvPenalise ip) = True"
| "penalty_call (EvNoPenalty ip) = True"
| "penalty_call _ = False"

fun store_call :: "event \<Rightarrow> bool" where
  "store_call (EvQuery q) = True"
| "store_call EvBegin = True"
| "store_call (EvTxExec q r) = True"
| "store_call EvCommit = True"
| "store_call EvRollback = True"
| "store_call (EvConnExec q r) = True"
| "store_call _ = False"

text \<open>
  The identity and secret a mutating request carries, when its body can be read and
  decoded.
\<close>

definition credentials_of ::
  "(bytes \<Rightarrow> error + 'a AuthData) \<Rightarrow> request \<Rightarrow> (string \<times> string) option" where
  "credentials_of unmarshal rq =
     (case rq_Body rq of
        Inl _ \<Rightarrow> None
      | Inr body \<Rightarrow>
          (case unmarshal body of
             Inl _ \<Rightarrow> None
           | Inr post \<Rightarrow> Some (ad_Username post, ad_Secret post)))"

text \<open>
  A handler run is \<open>guarded\<close> when its first call on any service is
  \<open>Authorized(origin, identity, secret)\<close> with the values of the request, and, where that
  call returns an error, it is the only call of the run, the handler returns that error
  with status 401 and the store is as before. A request that carries no credentials
  makes no call at all.
\<close>

definition guarded ::
  "request \<Rightarrow> (string \<times> string) option \<Rightarrow> service
     \<Rightarrow> (error option outcome \<times> Result) \<times> service \<Rightarrow> bool" where
  "guarded rq cred s r =
     (case cred of
        None \<Rightarrow> new_calls s (snd r) = [] \<and> Database (snd r) = Database s
      | Some (identity, secret) \<Rightarrow>
          (case new_calls s (snd r) of
             EvAuthorized ip u k res # es \<Rightarrow>
               ip = rq_IP rq \<and> u = identity \<and> k = secret \<and>
               (case res of
                  None \<Rightarrow> True
                | Some err \<Rightarrow>
                    es = [] \<and> fst (fst r) = Done (Some err) \<and>
                    Status (snd (fst r)) = StatusUnauthorized \<and>
                    Database (snd r) = Database s)
           | _ \<Rightarrow> False))"

text \<open>
  The \<open>content_id\<close> an index insert carries, and the chaining of a record of calls:
  every index insert sent in a transaction carries the \<open>LastInsertId\<close> of the result
  the statement before it in that transaction returned.
\<close>

fun index_content_id :: "stmt \<Rightarrow> int option" where
  "index_content_id (InsertBlogRecord title subtitle tag content_id) = Some content_id"
| "index_content_id (InsertStaticRecord name content_id) = Some content_id"
| "index_content_id _ = None"

fun chained :: "sql_result option \<Rightarrow> event list \<Rightarrow> bool" where
  "chained prior [] = True"
| "chained prior (EvTxExec q r # es) =
     ((case index_content_id q of
         None \<Rightarrow> True
       | Some content_id \<Rightarrow>
           (case prior of
              None \<Rightarrow> False
            | Some p \<Rightarrow> LastInsertId p = Inr content_id))
      \<and> chained r es)"
| "chained prior (EvBegin # es) = chained None es"
| "chained prior (e # es) = chained prior es"

text \<open>
  The two ways a credential check fails without an infrastructure error: the user name
  selects no credential row, or the first row selected does not compare equal. A login
  is \<open>reachable\<close> when the store fails neither the query nor the scan.
\<close>

definition unknown_user :: "database \<Rightarrow> LoginCredential \<Rightarrow> bool" where
  "unknown_user d login = (select_credential d (lc_Username login) = [])"

definition wrong_passphrase :: "lib \<Rightarrow> database \<Rightarrow> LoginCredential \<Rightarrow> bool" where
  "wrong_passphrase L d login =
     (case select_credential d (lc_Username login) of
        [] \<Rightarrow> False
      | row # _ \<Rightarrow> \<not> Compare L (lc_Passphrase login) (cd_salt row) (cd_hash row))"

definition reachable :: "database \<Rightarrow> LoginCredential \<Rightarrow> bool" where
  "reachable d login =
     (fault d (OpQuery (SelectCredential (lc_Username login))) = None \<and> fault d OpScan = None)"

section \<open>An instance to run the handlers on\<close>

text \<open>
  A toy instance of the library functions and a small store, used to evaluate the
  handlers on concrete requests. Bodies are colon-separated fields in place of JSON.
\<close>

fun split_on :: "char \<Rightarrow> string \<Rightarrow> string list" where
  "split_on c [] = [[]]"
| "split_on c (x # xs) =
     (if x = c then [] # split_on c xs
      else (case split_on c xs of w # ws \<Rightarrow> (x # w) # ws | [] \<Rightarrow> [[x]]))"

definition demo_Atoi :: "string \<Rightarrow> error + int" where
  "demo_Atoi x =
     (if x = ''1'' then Inr 1 else if x = ''2'' then Inr 2 else if x = ''7'' then Inr 7
      else Inl ''invalid syntax'')"

definition demo_FormatInt :: "int \<Rightarrow> string" where
  "demo_FormatInt i =
     (if i = 0 then ''0'' else if i = 1 then ''1'' else if i = 2 then ''2''
      else if i = 7 then ''7'' else ''?'')"

definition demo_lib :: lib where
  "demo_lib =
     \<lparr>Atoi = demo_Atoi,
      FormatInt = demo_FormatInt,
      Format = (\<lambda>t layout. CHR ''t'' # demo_FormatInt t),
      ScanTime = (\<lambda>t. CHR ''t'' # demo_FormatInt t),
      Compare = (\<lambda>passphrase salt hash. hash = salt @ passphrase),
      UnmarshalLogin = (\<lambda>b. case split_on CHR '':'' b of
          [u, p, d] \<Rightarrow> Inr \<lparr>lc_Username = u, lc_Passphrase = p, lc_Period = d\<rparr>
        | _ \<Rightarrow> Inl ''bad body''),
      UnmarshalBlogPost = (\<lambda>b. case split_on CHR '':'' b of
          [u, k, t, st, tg, bd] \<Rightarrow>
            Inr \<lparr>ad_Username = u, ad_Secret = k,
                 ad_Data = \<lparr>bp_Title = t, bp_Subtitle = st, bp_Tag = tg, bp_Body = bd\<rparr>\<rparr>
        | _ \<Rightarrow> Inl ''bad body''),
      UnmarshalBlogPut = (\<lambda>b. case split_on CHR '':'' b of
          [u, k, i, t, st, tg, bd] \<Rightarrow>
            Inr \<lparr>ad_Username = u, ad_Secret = k,
                 ad_Data = \<lparr>bu_ID = i, bu_Title = t, bu_Subtitle = st, bu_Tag = tg,
                            bu_Body = bd\<rparr>\<rparr>
        | _ \<Rightarrow> Inl ''bad body''),
      UnmarshalBlogDelete = (\<lambda>b. case split_on CHR '':'' b of
          [u, k, i] \<Rightarrow> Inr \<lparr>ad_Username = u, ad_Secret = k, ad_Data = \<lparr>bd_ID = i\<rparr>\<rparr>
        | _ \<Rightarrow> Inl ''bad body''),
      UnmarshalStaticPost = (\<lambda>b. case split_on CHR '':'' b of
          [u, k, n, bd] \<Rightarrow>
            Inr \<lparr>ad_Username = u, ad_Secret = k, ad_Data = \<lparr>sp_Name = n, sp_Body = bd\<rparr>\<rparr>
        | _ \<Rightarrow> Inl ''bad body'')\<rparr>"

text \<open>
  One user \<open>alice\<close> whose passphrase is \<open>correct\<close>, one blog post (id 1, content 1) and
  one static page \<open>about\<close> (content 2). \<open>demo_database_failing\<close> is the same store
  failing every query and every statement it is sent.
\<close>

definition demo_database :: database where
  "demo_database =
     \<lparr>page_content =
        [\<lparr>pc_id = 1, pc_created = 1, pc_updated = 1, pc_body = ''hello''\<rparr>,
         \<lparr>pc_id = 2, pc_created = 2, pc_updated = 2, pc_body = ''about us''\<rparr>],
      blog_pages =
        [\<lparr>bl_id = 1, bl_title = ''First'', bl_subtitle = ''post'', bl_tag = ''news'',
          bl_content_id = 1\<rparr>],
      static_pages = [\<lparr>sr_url_hash = ''#about'', sr_content_id = 2\<rparr>],
      users = [\<lparr>us_id = 1, us_username = ''alice''\<rparr>],
      credentials = [\<lparr>cd_user_id = 1, cd_hash = ''saltcorrect'', cd_salt = ''salt''\<rparr>],
      content_seq = 3,
      blog_seq = 2,
      md5 = (\<lambda>name. CHR ''#'' # name),
      key_of = (\<lambda>x. case demo_Atoi x of Inr i \<Rightarrow> Some i | Inl _ \<Rightarrow> None),
      fault = (\<lambda>_. None)\<rparr>"

definition demo_database_failing :: database where
  "demo_database_failing =
     demo_database\<lparr>fault := (\<lambda>x. case x of OpQuery _ \<Rightarrow> Some ''connection refused''
                                       | OpExec _ \<Rightarrow> Some ''connection refused''
                                       | _ \<Rightarrow> None)\<rparr>"

definition demo_auth :: auth where
  "demo_auth =
     \<lparr>penalty = Map.empty,
      sessions = [(''10.0.0.1'', ''alice'') \<mapsto>
                    \<lparr>ss_Identity = ''alice'', ss_Secret = ''k'', ss_Expiration = 7\<rparr>],
      secrets = (\<lambda>n. ''k''),
      drawn = 0,
      clamp_period = (\<lambda>period. 2)\<rparr>"

definition demo_service :: service where
  "demo_service = \<lparr>Auth = demo_auth, Database = demo_database, clock = 2, calls = []\<rparr>"

definition demo_service_failing :: service where
  "demo_service_failing = demo_service\<lparr>Database := demo_database_failing\<rparr>"

definition demo_result :: Result where
  "demo_result = \<lparr>Status = 200, Buffer = None\<rparr>"

definition demo_request :: "string \<Rightarrow> request" where
  "demo_request body =
     \<lparr>rq_Body = Inr body, rq_QueryId = ''7'', rq_PathName = ''contact'', rq_IP = ''10.0.0.1''\<rparr>"

section \<open>Properties of the login endpoint\<close>

lemma Database_emit: "Database (emit e s) = Database s"
  and Auth_emit: "Auth (emit e s) = Auth s"
  and clock_emit: "clock (emit e s) = clock s"
  and calls_emit: "calls (emit e s) = calls s @ [e]"
  by (simp_all add: emit_def)

lemma doAuth_fst: "Database s' = Database s \<Longrightarrow> fst (doAuth L login s') = fst (doAuth L login s)"
  by (simp add: doAuth_def Query_def Scan_def Println_def Database_emit
      split: option.splits list.splits)

lemma doAuth_Auth: "Auth (snd (doAuth L login s)) = Auth s"
  by (simp add: doAuth_def Query_def Scan_def Println_def Auth_emit Let_def
      split: option.splits list.splits)

lemma doAuth_Database: "Database (snd (doAuth L login s)) = Database s"
  by (simp add: doAuth_def Query_def Scan_def Println_def Database_emit Let_def
      split: option.splits list.splits)

lemma doAuth_calls:
  "\<exists>es. calls (snd (doAuth L login s)) = calls s @ es \<and> \<not> list_ex penalty_call es"
  by (simp add: doAuth_def Query_def Scan_def Println_def calls_emit Let_def
      split: option.splits list.splits)

lemma doAuth_unknown:
  "unknown_user (Database s) login \<Longrightarrow> reachable (Database s) login
     \<Longrightarrow> fst (doAuth L login s) = (False, None)"
  by (simp add: doAuth_def Query_def Scan_def Database_emit unknown_user_def reachable_def)

lemma doAuth_wrong:
  "wrong_passphrase L (Database s) login \<Longrightarrow> reachable (Database s) login
     \<Longrightarrow> fst (doAuth L login s) = (False, None)"
  by (simp add: doAuth_def Query_def Scan_def Database_emit wrong_passphrase_def reachable_def
       Let_def split: list.splits)

text \<open>Three ways a login attempt that is readable and well formed can go.\<close>

lemma login_Post_throttled:
  assumes "rq_Body rq = Inr body" "UnmarshalLogin L body = Inr login"
    "penalty (Auth s) (rq_IP rq) = Some True"
  shows "login_Post L rq re s =
    (fail ''Try again later'' StatusTooManyRequests re, emit (EvPenalised (rq_IP rq) True) s)"
  using assms by (simp add: login_Post_def Penalised_def Let_def)

lemma login_Post_rejected:
  assumes body: "rq_Body rq = Inr body"
    and login: "UnmarshalLogin L body = Inr login"
    and free: "penalty (Auth s) (rq_IP rq) \<noteq> Some True"
    and verdict: "fst (doAuth L login s) = (False, None)"
  shows "\<exists>s2 es. login_Post L rq re s =
            (fail ''Bad credentials'' StatusUnauthorized re, Penalise (rq_IP rq) s2)
          \<and> Auth s2 = Auth s \<and> Database s2 = Database s \<and> calls s2 = calls s @ es
          \<and> \<not> list_ex penalty_call es"
proof -
  define s1 where
    "s1 = emit (EvAuthenticate (rq_IP rq) (lc_Username login)) (emit (EvPenalised (rq_IP rq) False) s)"
  obtain v s2 where d: "doAuth L login s1 = (v, s2)" by (cases "doAuth L login s1")
  have "Database s1 = Database s" by (simp add: s1_def Database_emit)
  from doAuth_fst[OF this, of L login] d verdict have v: "v = (False, None)" by simp
  from doAuth_Auth[of L login s1] d have a: "Auth s2 = Auth s" by (simp add: s1_def Auth_emit)
  from doAuth_Database[of L login s1] d have b: "Database s2 = Database s"
    by (simp add: s1_def Database_emit)
  from doAuth_calls[of L login s1] d obtain es where
    c: "calls s2 = calls s1 @ es" "\<not> list_ex penalty_call es" by auto
  have "login_Post L rq re s = (fail ''Bad credentials'' StatusUnauthorized re, Penalise (rq_IP rq) s2)"
    using body login free d v
    by (simp add: login_Post_def Penalised_def Authenticate_def Let_def s1_def)
  moreover have "calls s2 = calls s @ (EvPenalised (rq_IP rq) False # EvAuthenticate (rq_IP rq) (lc_Username login) # es)"
    using c by (simp add: s1_def calls_emit)
  ultimately show ?thesis using a b c(2) by fastforce
qed

lemma login_Post_infrastructure:
  assumes body: "rq_Body rq = Inr body"
    and login: "UnmarshalLogin L body = Inr login"
    and free: "penalty (Auth s) (rq_IP rq) \<noteq> Some True"
    and verdict: "snd (fst (doAuth L login s)) = Some e"
  shows "\<exists>s2 es. login_Post L rq re s = (fail e StatusInternalServerError re, s2)
          \<and> Auth s2 = Auth s \<and> Database s2 = Database s \<and> calls s2 = calls s @ es
          \<and> \<not> list_ex penalty_call es"
proof -
  define s1 where
    "s1 = emit (EvAuthenticate (rq_IP rq) (lc_Username login)) (emit (EvPenalised (rq_IP rq) False) s)"
  obtain b e' s2 where d: "doAuth L login s1 = ((b, e'), s2)" by (cases "doAuth L login s1") auto
  have "Database s1 = Database s" by (simp add: s1_def Database_emit)
  from doAuth_fst[OF this, of L login] d verdict have v: "e' = Some e"
    by (metis fst_conv snd_conv)
  from doAuth_Auth[of L login s1] d have a: "Auth s2 = Auth s" by (simp add: s1_def Auth_emit)
  from doAuth_Database[of L login s1] d have db: "Database s2 = Database s"
    by (simp add: s1_def Database_emit)
  from doAuth_calls[of L login s1] d obtain es where
    c: "calls s2 = calls s1 @ es" "\<not> list_ex penalty_call es" by auto
  have "login_Post L rq re s = (fail e StatusInternalServerError re, s2)"
    using body login free d v
    by (cases b) (simp_all add: login_Post_def Penalised_def Authenticate_def Let_def s1_def)
  moreover have "calls s2 = calls s @ (EvPenalised (rq_IP rq) False # EvAuthenticate (rq_IP rq) (lc_Username login) # es)"
    using c by (simp add: s1_def calls_emit)
  ultimately show ?thesis using a db c(2) by fastforce
qed

subsection \<open>Login with bad credentials\<close>

text \<open>
  Claim C2. A login request that reaches credential verification (readable and well
  formed body, origin not penalised) and whose verification closure returns
  \<open>(false, nil)\<close> creates no session, has \<open>Penalise(origin)\<close> invoked, leaves the
  origin penalised, and is answered with status 401.
\<close>

theorem bad_credentials_penalise:
  assumes body: "rq_Body rq = Inr body"
    and login: "UnmarshalLogin L body = Inr login"
    and free: "penalty (Auth s) (rq_IP rq) \<noteq> Some True"
    and verdict: "fst (doAuth L login s) = (False, None)"
    and run: "login_Post L rq re s = ((out, re'), s')"
  shows "out = Done (Some ''Bad credentials'') \<and> Status re' = StatusUnauthorized
    \<and> Buffer re' = Buffer re
    \<and> sessions (Auth s') = sessions (Auth s)
    \<and> list_ex (\<lambda>ev. ev = EvPenalise (rq_IP rq)) (new_calls s s')
    \<and> penalty (Auth s') (rq_IP rq) = Some True"
proof -
  from login_Post_rejected[OF body login free verdict, of re] run obtain s2 es where
    "(out, re') = fail ''Bad credentials'' StatusUnauthorized re" "s' = Penalise (rq_IP rq) s2"
    "Auth s2 = Auth s" "calls s2 = calls s @ es"
    by auto
  then show ?thesis by (simp add: fail_def Penalise_def emit_def new_calls_def)
qed

theorem bad_credentials_penalise_witness:
  "(let rq = demo_request ''alice:wrong:1h'';
        r = login_Post demo_lib rq demo_result demo_service
    in fst (doAuth demo_lib \<lparr>lc_Username = ''alice'', lc_Passphrase = ''wrong'', lc_Period = ''1h''\<rparr>
              demo_service) = (False, None)
       \<and> fst (fst r) = Done (Some ''Bad credentials'')
       \<and> Status (snd (fst r)) = StatusUnauthorized
       \<and> sessions (Auth (snd r)) = sessions (Auth demo_service)
       \<and> list_ex (\<lambda>ev. ev = EvPenalise ''10.0.0.1'') (new_calls demo_service (snd r))
       \<and> penalty (Auth (snd r)) ''10.0.0.1'' = Some True)"
proof -
  let ?rq = "demo_request ''alice:wrong:1h''"
  let ?login = "\<lparr>lc_Username = ''alice'', lc_Passphrase = ''wrong'', lc_Period = ''1h''\<rparr>"
  let ?r = "login_Post demo_lib ?rq demo_result demo_service"
  have 1: "rq_Body ?rq = Inr ''alice:wrong:1h''" by (simp add: demo_request_def)
  have 2: "UnmarshalLogin demo_lib ''alice:wrong:1h'' = Inr ?login" by (simp add: demo_lib_def)
  have 3: "penalty (Auth demo_service) (rq_IP ?rq) \<noteq> Some True"
    by (simp add: demo_service_def demo_auth_def)
  have 4: "fst (doAuth demo_lib ?login demo_service) = (False, None)"
    by (simp add: doAuth_def Query_def Scan_def Println_def emit_def demo_service_def
        demo_database_def select_credential_def demo_lib_def)
  have 5: "?r = ((fst (fst ?r), snd (fst ?r)), snd ?r)" by simp
  have 6: "rq_IP ?rq = ''10.0.0.1''" by (simp add: demo_request_def)
  from bad_credentials_penalise[OF 1 2 3 4 5] 4 6 show ?thesis by (simp add: Let_def)
qed

text \<open>
  Claim C5. A login request whose verification closure returns an infrastructure error
  is answered with that error and status 500; the penalty state is unchanged and
  neither \<open>Penalise\<close> nor \<open>NoPenalty\<close> is invoked.
\<close>

theorem infrastructure_error_keeps_penalty:
  assumes body: "rq_Body rq = Inr body"
    and login: "UnmarshalLogin L body = Inr login"
    and free: "penalty (Auth s) (rq_IP rq) \<noteq> Some True"
    and verdict: "snd (fst (doAuth L login s)) = Some e"
    and run: "login_Post L rq re s = ((out, re'), s')"
  shows "out = Done (Some e) \<and> Status re' = StatusInternalServerError
    \<and> penalty (Auth s') = penalty (Auth s)
    \<and> \<not> list_ex penalty_call (new_calls s s')"
proof -
  from login_Post_infrastructure[OF body login free verdict, of re] run obtain es where
    "(out, re') = fail e StatusInternalServerError re" "Auth s' = Auth s"
    "calls s' = calls s @ es" "\<not> list_ex penalty_call es"
    by auto
  then show ?thesis by (simp add: fail_def new_calls_def)
qed

theorem infrastructure_error_keeps_penalty_witness:
  "(let rq = demo_request ''alice:wrong:1h'';
        r = login_Post demo_lib rq demo_result demo_service_failing
    in snd (fst (doAuth demo_lib
                   \<lparr>lc_Username = ''alice'', lc_Passphrase = ''wrong'', lc_Period = ''1h''\<rparr>
                   demo_service_failing)) = Some ''connection refused''
       \<and> fst (fst r) = Done (Some ''connection refused'')
       \<and> Status (snd (fst r)) = StatusInternalServerError
       \<and> penalty (Auth (snd r)) = penalty (Auth demo_service_failing)
       \<and> \<not> list_ex penalty_call (new_calls demo_service_failing (snd r)))"
proof -
  let ?rq = "demo_request ''alice:wrong:1h''"
  let ?login = "\<lparr>lc_Username = ''alice'', lc_Passphrase = ''wrong'', lc_Period = ''1h''\<rparr>"
  let ?r = "login_Post demo_lib ?rq demo_result demo_service_failing"
  have 1: "rq_Body ?rq = Inr ''alice:wrong:1h''" by (simp add: demo_request_def)
  have 2: "UnmarshalLogin demo_lib ''alice:wrong:1h'' = Inr ?login" by (simp add: demo_lib_def)
  have 3: "penalty (Auth demo_service_failing) (rq_IP ?rq) \<noteq> Some True"
    by (simp add: demo_service_failing_def demo_service_def demo_auth_def)
  have 4: "snd (fst (doAuth demo_lib ?login demo_service_failing)) = Some ''connection refused''"
    by (simp add: doAuth_def Query_def emit_def demo_service_failing_def demo_service_def
        demo_database_failing_def)
  have 5: "?r = ((fst (fst ?r), snd (fst ?r)), snd ?r)" by simp
  from infrastructure_error_keeps_penalty[OF 1 2 3 4 5] 4 show ?thesis by (simp add: Let_def)
qed

text \<open>
  Claim C7. Two failed logins, one naming an unknown user and one giving a wrong
  passphrase for a known user, get the same answer: the same error, status 401 and
  buffer.
\<close>

theorem failed_logins_indistinguishable:
  assumes b1: "rq_Body rq1 = Inr body1" and l1: "UnmarshalLogin L body1 = Inr login1"
    and f1: "penalty (Auth s1) (rq_IP rq1) \<noteq> Some True"
    and r1: "reachable (Database s1) login1"
    and u1: "unknown_user (Database s1) login1"
    and b2: "rq_Body rq2 = Inr body2" and l2: "UnmarshalLogin L body2 = Inr login2"
    and f2: "penalty (Auth s2) (rq_IP rq2) \<noteq> Some True"
    and r2: "reachable (Database s2) login2"
    and w2: "wrong_passphrase L (Database s2) login2"
  shows "fst (login_Post L rq1 re s1) = fst (login_Post L rq2 re s2)
    \<and> fst (login_Post L rq1 re s1) = (Done (Some ''Bad credentials''), re\<lparr>Status := StatusUnauthorized\<rparr>)"
proof -
  have "fst (login_Post L rq1 re s1) = fail ''Bad credentials'' StatusUnauthorized re"
    using login_Post_rejected[OF b1 l1 f1 doAuth_unknown[OF u1 r1], of re] by auto
  moreover have "fst (login_Post L rq2 re s2) = fail ''Bad credentials'' StatusUnauthorized re"
    using login_Post_rejected[OF b2 l2 f2 doAuth_wrong[OF w2 r2], of re] by auto
  ultimately show ?thesis by (simp add: fail_def)
qed

theorem failed_logins_indistinguishable_witness:
  "unknown_user demo_database \<lparr>lc_Username = ''bob'', lc_Passphrase = ''correct'', lc_Period = ''1h''\<rparr>
   \<and> wrong_passphrase demo_lib demo_database
        \<lparr>lc_Username = ''alice'', lc_Passphrase = ''wrong'', lc_Period = ''1h''\<rparr>
   \<and> fst (login_Post demo_lib (demo_request ''bob:correct:1h'') demo_result demo_service)
       = fst (login_Post demo_lib (demo_request ''alice:wrong:1h'') demo_result demo_service)
   \<and> fst (login_Post demo_lib (demo_request ''bob:correct:1h'') demo_result demo_service)
       = (Done (Some ''Bad credentials''), demo_result\<lparr>Status := StatusUnauthorized\<rparr>)"
proof -
  let ?rq1 = "demo_request ''bob:correct:1h''" and ?rq2 = "demo_request ''alice:wrong:1h''"
  let ?l1 = "\<lparr>lc_Username = ''bob'', lc_Passphrase = ''correct'', lc_Period = ''1h''\<rparr>"
  let ?l2 = "\<lparr>lc_Username = ''alice'', lc_Passphrase = ''wrong'', lc_Period = ''1h''\<rparr>"
  have b1: "rq_Body ?rq1 = Inr ''bob:correct:1h''" and b2: "rq_Body ?rq2 = Inr ''alice:wrong:1h''"
    by (simp_all add: demo_request_def)
  have l1: "UnmarshalLogin demo_lib ''bob:correct:1h'' = Inr ?l1"
    and l2: "UnmarshalLogin demo_lib ''alice:wrong:1h'' = Inr ?l2"
    by (simp_all add: demo_lib_def)
  have f1: "penalty (Auth demo_service) (rq_IP ?rq1) \<noteq> Some True"
    and f2: "penalty (Auth demo_service) (rq_IP ?rq2) \<noteq> Some True"
    by (simp_all add: demo_service_def demo_auth_def)
  have r1: "reachable (Database demo_service) ?l1" and r2: "reachable (Database demo_service) ?l2"
    by (simp_all add: reachable_def demo_service_def demo_database_def)
  have u1: "unknown_user (Database demo_service) ?l1"
    by (simp add: unknown_user_def select_credential_def demo_service_def demo_database_def)
  have w2: "wrong_passphrase demo_lib (Database demo_service) ?l2"
    by (simp add: wrong_passphrase_def select_credential_def demo_service_def demo_database_def
        demo_lib_def)
  have d: "Database demo_service = demo_database" by (simp add: demo_service_def)
  from u1 w2 d have "unknown_user demo_database ?l1" "wrong_passphrase demo_lib demo_database ?l2"
    by simp_all
  with failed_logins_indistinguishable[OF b1 l1 f1 r1 u1 b2 l2 f2 r2 w2, of demo_result]
  show ?thesis by blast
qed

subsection \<open>Three wrong attempts from one origin\<close>

text \<open>
  Claim C1 as stated, at three attempts by \<open>alice\<close> with a wrong passphrase, does not
  hold: the first failure already penalises the origin, so the second attempt is
  answered 429, not 401.
\<close>

theorem three_wrong_attempts_counterexample:
  "\<not> (let rq = demo_request ''alice:wrong:1h'';
          a1 = login_Post demo_lib rq demo_result demo_service;
          a2 = login_Post demo_lib rq demo_result (snd a1);
          a3 = login_Post demo_lib rq demo_result (snd a2)
      in penalty (Auth demo_service) (rq_IP rq) \<noteq> Some True
         \<and> Status (snd (fst a1)) = StatusUnauthorized
         \<and> penalty (Auth (snd a1)) (rq_IP rq) \<noteq> Some True
         \<and> Status (snd (fst a2)) = StatusUnauthorized
         \<and> Status (snd (fst a3)) = StatusTooManyRequests
         \<and> \<not> list_ex store_call (new_calls (snd a2) (snd a3)))"
proof -
  let ?rq = "demo_request ''alice:wrong:1h''"
  let ?login = "\<lparr>lc_Username = ''alice'', lc_Passphrase = ''wrong'', lc_Period = ''1h''\<rparr>"
  let ?a1 = "login_Post demo_lib ?rq demo_result demo_service"
  have 1: "rq_Body ?rq = Inr ''alice:wrong:1h''" by (simp add: demo_request_def)
  have 2: "UnmarshalLogin demo_lib ''alice:wrong:1h'' = Inr ?login" by (simp add: demo_lib_def)
  have 3: "penalty (Auth demo_service) (rq_IP ?rq) \<noteq> Some True"
    by (simp add: demo_service_def demo_auth_def)
  have 4: "fst (doAuth demo_lib ?login demo_service) = (False, None)"
    by (simp add: doAuth_def Query_def Scan_def Println_def emit_def demo_service_def
        demo_database_def select_credential_def demo_lib_def)
  from login_Post_rejected[OF 1 2 3 4, of demo_result]
  have "penalty (Auth (snd ?a1)) (rq_IP ?rq) = Some True"
    by (auto simp: Penalise_def emit_def)
  then show ?thesis by (simp add: Let_def)
qed

text \<open>
  Claim C1, amended. Of three consecutive login attempts with a wrong passphrase from
  one origin that starts un-penalised, the first is answered 401 and penalises the
  origin; the second and the third are answered 429 without any call on the data
  store.
\<close>

theorem wrong_attempts_throttled:
  assumes body: "rq_Body rq = Inr body"
    and login: "UnmarshalLogin L body = Inr login"
    and free: "penalty (Auth s) (rq_IP rq) \<noteq> Some True"
    and verdict: "fst (doAuth L login s) = (False, None)"
    and run1: "login_Post L rq re s = ((out1, re1), s1)"
    and run2: "login_Post L rq re s1 = ((out2, re2), s2)"
    and run3: "login_Post L rq re s2 = ((out3, re3), s3)"
  shows "Status re1 = StatusUnauthorized
    \<and> penalty (Auth s1) (rq_IP rq) = Some True
    \<and> out2 = Done (Some ''Try again later'') \<and> Status re2 = StatusTooManyRequests
    \<and> \<not> list_ex store_call (new_calls s1 s2)
    \<and> penalty (Auth s2) (rq_IP rq) = Some True
    \<and> out3 = Done (Some ''Try again later'') \<and> Status re3 = StatusTooManyRequests
    \<and> \<not> list_ex store_call (new_calls s2 s3)"
proof -
  from login_Post_rejected[OF body login free verdict, of re] run1 obtain t where
    r1: "(out1, re1) = fail ''Bad credentials'' StatusUnauthorized re"
    and s1: "s1 = Penalise (rq_IP rq) t"
    by auto
  from s1 have p1: "penalty (Auth s1) (rq_IP rq) = Some True"
    by (simp add: Penalise_def emit_def)
  from login_Post_throttled[OF body login p1, of re] run2
  have r2: "(out2, re2) = fail ''Try again later'' StatusTooManyRequests re"
    and s2: "s2 = emit (EvPenalised (rq_IP rq) True) s1"
    by simp_all
  from s2 p1 have p2: "penalty (Auth s2) (rq_IP rq) = Some True"
    by (simp add: emit_def)
  from login_Post_throttled[OF body login p2, of re] run3
  have r3: "(out3, re3) = fail ''Try again later'' StatusTooManyRequests re"
    and s3: "s3 = emit (EvPenalised (rq_IP rq) True) s2"
    by simp_all
  from r1 r2 r3 p1 p2 s2 s3 show ?thesis
    by (simp add: fail_def new_calls_def emit_def)
qed

theorem wrong_attempts_throttled_witness:
  "(let rq = demo_request ''alice:wrong:1h'';
        a1 = login_Post demo_lib rq demo_result demo_service;
        a2 = login_Post demo_lib rq demo_result (snd a1);
        a3 = login_Post demo_lib rq demo_result (snd a2)
    in penalty (Auth demo_service) (rq_IP rq) \<noteq> Some True
       \<and> Status (snd (fst a1)) = StatusUnauthorized
       \<and> penalty (Auth (snd a1)) (rq_IP rq) = Some True
       \<and> Status (snd (fst a2)) = StatusTooManyRequests
       \<and> \<not> list_ex store_call (new_calls (snd a1) (snd a2))
       \<and> Status (snd (fst a3)) = StatusTooManyRequests
       \<and> \<not> list_ex store_call (new_calls (snd a2) (snd a3)))"
proof -
  let ?rq = "demo_request ''alice:wrong:1h''"
  let ?login = "\<lparr>lc_Username = ''alice'', lc_Passphrase = ''wrong'', lc_Period = ''1h''\<rparr>"
  let ?a1 = "login_Post demo_lib ?rq demo_result demo_service"
  let ?a2 = "login_Post demo_lib ?rq demo_result (snd ?a1)"
  let ?a3 = "login_Post demo_lib ?rq demo_result (snd ?a2)"
  have 1: "rq_Body ?rq = Inr ''alice:wrong:1h''" by (simp add: demo_request_def)
  have 2: "UnmarshalLogin demo_lib ''alice:wrong:1h'' = Inr ?login" by (simp add: demo_lib_def)
  have 3: "penalty (Auth demo_service) (rq_IP ?rq) \<noteq> Some True"
    by (simp add: demo_service_def demo_auth_def)
  have 4: "fst (doAuth demo_lib ?login demo_service) = (False, None)"
    by (simp add: doAuth_def Query_def Scan_def Println_def emit_def demo_service_def
        demo_database_def select_credential_def demo_lib_def)
  have 5: "?a1 = ((fst (fst ?a1), snd (fst ?a1)), snd ?a1)"
    and 6: "?a2 = ((fst (fst ?a2), snd (fst ?a2)), snd ?a2)"
    and 7: "?a3 = ((fst (fst ?a3), snd (fst ?a3)), snd ?a3)"
    by simp_all
  from wrong_attempts_throttled[OF 1 2 3 4 5 6 7] 3 show ?thesis by (simp add: Let_def)
qed

section \<open>Properties of the blog and static endpoints\<close>

lemmas store_defs =
  Authorized_def Transaction_def Connection_def ExecContext_def rollback_def emit_def fail_def
  Marshal_def Let_def mk_result_def

subsection \<open>Authorization comes first\<close>

lemma blog_Post_guarded:
  "guarded rq (credentials_of (UnmarshalBlogPost L) rq) s (blog_Post L rq re s)"
  by (simp add: guarded_def credentials_of_def new_calls_def blog_Post_def insertBody_def
      insertRecord_def store_defs split: sum.splits option.splits)

lemma blog_Put_guarded:
  "guarded rq (credentials_of (UnmarshalBlogPut L) rq) s (blog_Put L rq re s)"
  by (simp add: guarded_def credentials_of_def new_calls_def blog_Put_def updateRecord_def
      store_defs split: sum.splits option.splits)

lemma blog_Delete_guarded:
  "guarded rq (credentials_of (UnmarshalBlogDelete L) rq) s (blog_Delete L rq re s)"
  by (simp add: guarded_def credentials_of_def new_calls_def blog_Delete_def deleteRecord_def
      store_defs split: sum.splits option.splits)

lemma static_Post_guarded:
  "guarded rq (credentials_of (UnmarshalStaticPost L) rq) s (static_Post L rq re s)"
  by (simp add: guarded_def credentials_of_def new_calls_def static_Post_def insertBody_def
      insertStaticRecord_def store_defs split: sum.splits option.splits)

text \<open>
  Claim C6. Each mutating handler (blog \<open>Post\<close>, \<open>Put\<close>, \<open>Delete\<close>; static \<open>Post\<close>) calls
  \<open>Authorized(origin, identity, secret)\<close> before any work of the TransactionSequencer
  or the ConnectionExecutor, and when \<open>Authorized\<close> returns an error the handler
  returns it with status 401 and sends nothing to the data store.
\<close>

theorem authorized_before_store_work:
  "guarded rq (credentials_of (UnmarshalBlogPost L) rq) s (blog_Post L rq re s)
   \<and> guarded rq (credentials_of (UnmarshalBlogPut L) rq) s (blog_Put L rq re s)
   \<and> guarded rq (credentials_of (UnmarshalBlogDelete L) rq) s (blog_Delete L rq re s)
   \<and> guarded rq (credentials_of (UnmarshalStaticPost L) rq) s (static_Post L rq re s)"
  by (simp add: blog_Post_guarded blog_Put_guarded blog_Delete_guarded static_Post_guarded)

theorem authorized_before_store_work_witness:
  "guarded (demo_request ''alice:bad:7'') (Some (''alice'', ''bad'')) demo_service
     (blog_Delete demo_lib (demo_request ''alice:bad:7'') demo_result demo_service)"
proof -
  have "credentials_of (UnmarshalBlogDelete demo_lib) (demo_request ''alice:bad:7'')
          = Some (''alice'', ''bad'')"
    by (simp add: credentials_of_def demo_request_def demo_lib_def)
  with authorized_before_store_work[of "demo_request ''alice:bad:7''" demo_lib demo_service demo_result]
  show ?thesis by simp
qed

subsection \<open>The two-step insert\<close>

lemma blog_Post_chained: "chained None (new_calls s (snd (blog_Post L rq re s)))"
  by (simp add: new_calls_def blog_Post_def insertBody_def insertRecord_def store_defs
      split: sum.splits option.splits)

lemma static_Post_chained: "chained None (new_calls s (snd (static_Post L rq re s)))"
  by (simp add: new_calls_def static_Post_def insertBody_def insertStaticRecord_def store_defs
      split: sum.splits option.splits)

lemma blog_Post_rows:
  assumes "rq_Body rq = Inr body" "UnmarshalBlogPost L body = Inr post"
    and "fst (fst (blog_Post L rq re s)) = Done None"
  shows "page_content (Database (snd (blog_Post L rq re s))) = page_content (Database s) @
           [\<lparr>pc_id = content_seq (Database s), pc_created = clock s, pc_updated = clock s,
             pc_body = bp_Body (ad_Data post)\<rparr>]
         \<and> blog_pages (Database (snd (blog_Post L rq re s))) = blog_pages (Database s) @
           [\<lparr>bl_id = blog_seq (Database s), bl_title = bp_Title (ad_Data post),
             bl_subtitle = bp_Subtitle (ad_Data post), bl_tag = bp_Tag (ad_Data post),
             bl_content_id = content_seq (Database s)\<rparr>]"
  using assms
  by (auto simp: blog_Post_def insertBody_def insertRecord_def store_defs
      split: sum.splits option.splits)

lemma static_Post_rows:
  assumes "rq_Body rq = Inr body" "UnmarshalStaticPost L body = Inr post"
    and "fst (fst (static_Post L rq re s)) = Done None"
  shows "page_content (Database (snd (static_Post L rq re s))) = page_content (Database s) @
           [\<lparr>pc_id = content_seq (Database s), pc_created = clock s, pc_updated = clock s,
             pc_body = sp_Body (ad_Data post)\<rparr>]
         \<and> static_pages (Database (snd (static_Post L rq re s))) = static_pages (Database s) @
           [\<lparr>sr_url_hash = md5 (Database s) (sp_Name (ad_Data post)),
             sr_content_id = content_seq (Database s)\<rparr>]"
  using assms
  by (auto simp: static_Post_def insertBody_def insertStaticRecord_def store_defs
      split: sum.splits option.splits)

text \<open>
  Claim C3. In the two-step sequenced write of the blog and the static \<open>Post\<close>, the index
  insert carries as \<open>content_id\<close> the \<open>LastInsertId\<close> of the result the content insert
  returned in the same transaction; when the handler succeeds, the one index row added
  references the one content row added, by the identifier the store generated for it.
\<close>

theorem index_insert_carries_generated_id:
  "chained None (new_calls s (snd (blog_Post L rq re s)))
   \<and> chained None (new_calls s (snd (static_Post L rq re s)))
   \<and> (\<forall>body post. rq_Body rq = Inr body \<and> UnmarshalBlogPost L body = Inr post
          \<and> fst (fst (blog_Post L rq re s)) = Done None \<longrightarrow>
        page_content (Database (snd (blog_Post L rq re s))) = page_content (Database s) @
          [\<lparr>pc_id = content_seq (Database s), pc_created = clock s, pc_updated = clock s,
            pc_body = bp_Body (ad_Data post)\<rparr>]
        \<and> blog_pages (Database (snd (blog_Post L rq re s))) = blog_pages (Database s) @
          [\<lparr>bl_id = blog_seq (Database s), bl_title = bp_Title (ad_Data post),
            bl_subtitle = bp_Subtitle (ad_Data post), bl_tag = bp_Tag (ad_Data post),
            bl_content_id = content_seq (Database s)\<rparr>])
   \<and> (\<forall>body post. rq_Body rq = Inr body \<and> UnmarshalStaticPost L body = Inr post
          \<and> fst (fst (static_Post L rq re s)) = Done None \<longrightarrow>
        page_content (Database (snd (static_Post L rq re s))) = page_content (Database s) @
          [\<lparr>pc_id = content_seq (Database s), pc_created = clock s, pc_updated = clock s,
            pc_body = sp_Body (ad_Data post)\<rparr>]
        \<and> static_pages (Database (snd (static_Post L rq re s))) = static_pages (Database s) @
          [\<lparr>sr_url_hash = md5 (Database s) (sp_Name (ad_Data post)),
            sr_content_id = content_seq (Database s)\<rparr>])"
  using blog_Post_chained[of s L rq re] static_Post_chained[of s L rq re]
    blog_Post_rows[of rq _ L _ re s] static_Post_rows[of rq _ L _ re s]
  by blast

theorem index_insert_carries_generated_id_witness:
  "(let r = blog_Post demo_lib (demo_request ''alice:k:T:S:G:B'') demo_result demo_service;
        p = static_Post demo_lib (demo_request ''alice:k:contact:B'') demo_result demo_service
    in fst (fst r) = Done None \<and> fst (fst p) = Done None
       \<and> chained None (new_calls demo_service (snd r))
       \<and> page_content (Database (snd r)) = page_content demo_database @
            [\<lparr>pc_id = 3, pc_created = 2, pc_updated = 2, pc_body = ''B''\<rparr>]
       \<and> blog_pages (Database (snd r)) = blog_pages demo_database @
            [\<lparr>bl_id = 2, bl_title = ''T'', bl_subtitle = ''S'', bl_tag = ''G'',
              bl_content_id = 3\<rparr>]
       \<and> static_pages (Database (snd p)) = static_pages demo_database @
            [\<lparr>sr_url_hash = ''#contact'', sr_content_id = 3\<rparr>])"
proof -
  let ?rq = "demo_request ''alice:k:T:S:G:B''" and ?rq2 = "demo_request ''alice:k:contact:B''"
  let ?post = "\<lparr>ad_Username = ''alice'', ad_Secret = ''k'',
                 ad_Data = \<lparr>bp_Title = ''T'', bp_Subtitle = ''S'', bp_Tag = ''G'', bp_Body = ''B''\<rparr>\<rparr>"
  let ?post2 = "\<lparr>ad_Username = ''alice'', ad_Secret = ''k'',
                  ad_Data = \<lparr>sp_Name = ''contact'', sp_Body = ''B''\<rparr>\<rparr>"
  have 1: "rq_Body ?rq = Inr ''alice:k:T:S:G:B''" and 2: "rq_Body ?rq2 = Inr ''alice:k:contact:B''"
    by (simp_all add: demo_request_def)
  have 3: "UnmarshalBlogPost demo_lib ''alice:k:T:S:G:B'' = Inr ?post"
    and 4: "UnmarshalStaticPost demo_lib ''alice:k:contact:B'' = Inr ?post2"
    by (simp_all add: demo_lib_def)
  have 5: "fst (fst (blog_Post demo_lib ?rq demo_result demo_service)) = Done None"
    and 6: "fst (fst (static_Post demo_lib ?rq2 demo_result demo_service)) = Done None"
    by code_simp+
  have d: "Database demo_service = demo_database" "clock demo_service = 2"
    "content_seq demo_database = 3" "blog_seq demo_database = 2"
    "md5 demo_database ''contact'' = ''#contact''"
    by (simp_all add: demo_service_def demo_database_def)
  from index_insert_carries_generated_id[of demo_service demo_lib ?rq demo_result] 1 3 5
  have a: "chained None (new_calls demo_service (snd (blog_Post demo_lib ?rq demo_result demo_service)))"
    "page_content (Database (snd (blog_Post demo_lib ?rq demo_result demo_service))) =
       page_content demo_database @ [\<lparr>pc_id = 3, pc_created = 2, pc_updated = 2, pc_body = ''B''\<rparr>]"
    "blog_pages (Database (snd (blog_Post demo_lib ?rq demo_result demo_service))) =
       blog_pages demo_database @
         [\<lparr>bl_id = 2, bl_title = ''T'', bl_subtitle = ''S'', bl_tag = ''G'', bl_content_id = 3\<rparr>]"
    by (simp_all add: d)
  from index_insert_carries_generated_id[of demo_service demo_lib ?rq2 demo_result] 2 4 6
  have b: "static_pages (Database (snd (static_Post demo_lib ?rq2 demo_result demo_service))) =
       static_pages demo_database @ [\<lparr>sr_url_hash = ''#contact'', sr_content_id = 3\<rparr>]"
    by (simp add: d)
  from a b 5 6 show ?thesis by (simp add: Let_def)
qed

subsection \<open>Requests that name an absent entity\<close>

lemma none_hit_b:
  assumes "\<not> list_ex (hit_a d ID) (blog_pages d)" "b \<in> set (page_content d)"
  shows "\<not> hit_b d ID b"
  using assms by (auto simp: hit_a_def hit_b_def list_ex_iff)

lemma map_if_none: "\<forall>x\<in>set xs. \<not> P x \<Longrightarrow> map (\<lambda>x. if P x then f x else x) xs = xs"
  by (induction xs) auto

lemma changed_same: "changed xs xs = 0"
  by (induction xs) (auto simp: changed_def)

lemma update_absent:
  assumes "\<not> list_ex (hit_a d ID) (blog_pages d)"
  shows "apply_stmt (UpdateBlog t st u bd ID) d = (mk_result d 0 0, d)"
proof -
  have a: "map (\<lambda>a. if hit_a d ID a then a\<lparr>bl_title := t, bl_subtitle := st\<rparr> else a) (blog_pages d)
            = blog_pages d"
    using assms by (intro map_if_none) (simp add: list_ex_iff)
  have b: "map (\<lambda>b. if hit_b d ID b then b\<lparr>pc_updated := u, pc_body := bd\<rparr> else b) (page_content d)
            = page_content d"
    using none_hit_b[OF assms] by (intro map_if_none) simp
  show ?thesis by (simp add: a b changed_same)
qed

lemma delete_absent:
  assumes "\<not> list_ex (hit_a d ID) (blog_pages d)"
  shows "apply_stmt (DeleteBlog ID) d = (mk_result d 0 0, d)"
proof -
  have a: "filter (\<lambda>a. \<not> hit_a d ID a) (blog_pages d) = blog_pages d"
    using assms by (simp add: list_ex_iff)
  have b: "filter (\<lambda>b. \<not> hit_b d ID b) (page_content d) = page_content d"
    using none_hit_b[OF assms] by simp
  show ?thesis by (simp add: a b)
qed

lemma blog_Get_absent:
  assumes "Atoi L (rq_QueryId rq) = Inr i" "fault (Database s) (OpQuery (SelectBlog i)) = None"
    "select_blog (Database s) i = []"
  shows "fst (blog_Get L rq re s) =
    (Done (Some (''Blog %!s(int='' @ FormatInt L i @ '') not found'')), re\<lparr>Status := StatusNotFound\<rparr>)"
  using assms by (simp add: blog_Get_def Query_def emit_def fail_def)

lemma static_Get_absent:
  assumes "fault (Database s) (OpQuery (SelectPage (rq_PathName rq))) = None"
    "select_page (Database s) (rq_PathName rq) = []"
  shows "fst (static_Get L rq re s) =
    (Done (Some (''Page '' @ rq_PathName rq @ '' not found'')), re\<lparr>Status := StatusNotFound\<rparr>)"
  using assms by (simp add: static_Get_def Query_def emit_def fail_def Let_def)

lemma blog_Put_absent:
  assumes "rq_Body rq = Inr body" "UnmarshalBlogPut L body = Inr post"
    "fst (Authorized (rq_IP rq) (ad_Username post) (ad_Secret post) s) = None"
    "fault (Database s) (OpExec (UpdateBlog (bu_Title (ad_Data post)) (bu_Subtitle (ad_Data post))
        (clock s) (bu_Body (ad_Data post)) (bu_ID (ad_Data post)))) = None"
    "fault (Database s) OpRowsAffected = None"
    "\<not> list_ex (hit_a (Database s) (bu_ID (ad_Data post))) (blog_pages (Database s))"
  shows "fst (blog_Put L rq re s) =
    (Done (Some ''Unexpected database result (no rows modified)''),
     re\<lparr>Status := StatusInternalServerError\<rparr>)"
  using assms
  by (simp add: blog_Put_def Authorized_def Connection_def updateRecord_def ExecContext_def
      emit_def fail_def Let_def update_absent mk_result_def del: apply_stmt.simps
      split: option.splits)

lemma blog_Delete_absent:
  assumes "rq_Body rq = Inr body" "UnmarshalBlogDelete L body = Inr post"
    "fst (Authorized (rq_IP rq) (ad_Username post) (ad_Secret post) s) = None"
    "fault (Database s) (OpExec (DeleteBlog (bd_ID (ad_Data post)))) = None"
    "fault (Database s) OpRowsAffected = None"
    "\<not> list_ex (hit_a (Database s) (bd_ID (ad_Data post))) (blog_pages (Database s))"
  shows "fst (blog_Delete L rq re s) = (Done None, re\<lparr>Status := StatusInternalServerError\<rparr>)"
  using assms
  by (simp add: blog_Delete_def Authorized_def Connection_def deleteRecord_def ExecContext_def
      emit_def fail_def Let_def delete_absent mk_result_def del: apply_stmt.simps
      split: option.splits)

text \<open>
  Claim C8 as stated does not hold for \<open>Put\<close>: an update whose id matches no stored row
  is answered with status 500, not 404.
\<close>

theorem absent_entity_counterexample:
  "\<not> list_ex (hit_a demo_database ''7'') (blog_pages demo_database)
   \<and> Status (snd (fst (blog_Put demo_lib (demo_request ''alice:k:7:T:S:G:B'') demo_result
                         demo_service))) = StatusInternalServerError
   \<and> Status (snd (fst (blog_Put demo_lib (demo_request ''alice:k:7:T:S:G:B'') demo_result
                         demo_service))) \<noteq> StatusNotFound"
  by code_simp

text \<open>
  Claim C8, amended. A \<open>Get\<close> of a blog id or of a static page name that matches no
  stored row fails with a not-found error and status 404; an authorized \<open>Put\<close> whose id
  matches no stored row fails with the error "Unexpected database result (no rows
  modified)" and status 500; an authorized \<open>Delete\<close> whose id matches no stored row sets
  status 500.
\<close>

theorem absent_entity_answers:
  "(Atoi L (rq_QueryId rq) = Inr i \<and> fault (Database s) (OpQuery (SelectBlog i)) = None
      \<and> select_blog (Database s) i = [] \<longrightarrow>
    fst (blog_Get L rq re s) =
      (Done (Some (''Blog %!s(int='' @ FormatInt L i @ '') not found'')),
       re\<lparr>Status := StatusNotFound\<rparr>))
   \<and> (fault (Database s) (OpQuery (SelectPage (rq_PathName rq))) = None
      \<and> select_page (Database s) (rq_PathName rq) = [] \<longrightarrow>
    fst (static_Get L rq re s) =
      (Done (Some (''Page '' @ rq_PathName rq @ '' not found'')), re\<lparr>Status := StatusNotFound\<rparr>))
   \<and> (rq_Body rq = Inr body \<and> UnmarshalBlogPut L body = Inr put
      \<and> fst (Authorized (rq_IP rq) (ad_Username put) (ad_Secret put) s) = None
      \<and> fault (Database s)
          (OpExec (UpdateBlog (bu_Title (ad_Data put)) (bu_Subtitle (ad_Data put)) (clock s)
             (bu_Body (ad_Data put)) (bu_ID (ad_Data put)))) = None
      \<and> fault (Database s) OpRowsAffected = None
      \<and> \<not> list_ex (hit_a (Database s) (bu_ID (ad_Data put))) (blog_pages (Database s)) \<longrightarrow>
    fst (blog_Put L rq re s) =
      (Done (Some ''Unexpected database result (no rows modified)''),
       re\<lparr>Status := StatusInternalServerError\<rparr>))
   \<and> (rq_Body rq = Inr body \<and> UnmarshalBlogDelete L body = Inr del
      \<and> fst (Authorized (rq_IP rq) (ad_Username del) (ad_Secret del) s) = None
      \<and> fault (Database s) (OpExec (DeleteBlog (bd_ID (ad_Data del)))) = None
      \<and> fault (Database s) OpRowsAffected = None
      \<and> \<not> list_ex (hit_a (Database s) (bd_ID (ad_Data del))) (blog_pages (Database s)) \<longrightarrow>
    Status (snd (fst (blog_Delete L rq re s))) = StatusInternalServerError)"
  using blog_Get_absent[of L rq i s re] static_Get_absent[of s rq L re]
    blog_Put_absent[of rq body L put s re] blog_Delete_absent[of rq body L del s re]
  by simp

theorem absent_entity_answers_witness:
  "select_blog demo_database 7 = []
   \<and> fst (blog_Get demo_lib (demo_request []) demo_result demo_service) =
       (Done (Some ''Blog %!s(int=7) not found''), demo_result\<lparr>Status := StatusNotFound\<rparr>)
   \<and> select_page demo_database ''contact'' = []
   \<and> fst (static_Get demo_lib (demo_request []) demo_result demo_service) =
       (Done (Some ''Page contact not found''), demo_result\<lparr>Status := StatusNotFound\<rparr>)
   \<and> \<not> list_ex (hit_a demo_database ''7'') (blog_pages demo_database)
   \<and> fst (blog_Put demo_lib (demo_request ''alice:k:7:T:S:G:B'') demo_result demo_service) =
       (Done (Some ''Unexpected database result (no rows modified)''),
        demo_result\<lparr>Status := StatusInternalServerError\<rparr>)
   \<and> Status (snd (fst (blog_Delete demo_lib (demo_request ''alice:k:7'') demo_result
                         demo_service))) = StatusInternalServerError"
proof -
  let ?get = "demo_request []" and ?put = "demo_request ''alice:k:7:T:S:G:B''"
    and ?del = "demo_request ''alice:k:7''"
  let ?p = "\<lparr>ad_Username = ''alice'', ad_Secret = ''k'',
              ad_Data = \<lparr>bu_ID = ''7'', bu_Title = ''T'', bu_Subtitle = ''S'', bu_Tag = ''G'',
                         bu_Body = ''B''\<rparr>\<rparr>"
  let ?d = "\<lparr>ad_Username = ''alice'', ad_Secret = ''k'', ad_Data = \<lparr>bd_ID = ''7''\<rparr>\<rparr>"
  have d: "Database demo_service = demo_database" by (simp add: demo_service_def)
  have f: "fault demo_database x = None" for x by (simp add: demo_database_def)
  have g1: "Atoi demo_lib (rq_QueryId ?get) = Inr 7" "FormatInt demo_lib 7 = ''7''"
    "rq_PathName ?get = ''contact''"
    by (simp_all add: demo_lib_def demo_request_def demo_Atoi_def demo_FormatInt_def)
  have g2: "select_blog demo_database 7 = []" "select_page demo_database ''contact'' = []"
    by (simp_all add: select_blog_def select_page_def demo_database_def)
  have h: "\<not> list_ex (hit_a demo_database ''7'') (blog_pages demo_database)"
    by (simp add: hit_a_def demo_database_def demo_Atoi_def)
  have p: "rq_Body ?put = Inr ''alice:k:7:T:S:G:B''" "UnmarshalBlogPut demo_lib ''alice:k:7:T:S:G:B'' = Inr ?p"
    "rq_Body ?del = Inr ''alice:k:7''" "UnmarshalBlogDelete demo_lib ''alice:k:7'' = Inr ?d"
    by (simp_all add: demo_request_def demo_lib_def)
  have a: "fst (Authorized (rq_IP ?put) ''alice'' ''k'' demo_service) = None"
    "fst (Authorized (rq_IP ?del) ''alice'' ''k'' demo_service) = None"
    by (simp_all add: Authorized_def demo_request_def demo_service_def demo_auth_def)
  from absent_entity_answers[of demo_lib ?get 7 demo_service demo_result] g1 g2 d f
  have 1: "fst (blog_Get demo_lib ?get demo_result demo_service) =
       (Done (Some ''Blog %!s(int=7) not found''), demo_result\<lparr>Status := StatusNotFound\<rparr>)"
    and 2: "fst (static_Get demo_lib ?get demo_result demo_service) =
       (Done (Some ''Page contact not found''), demo_result\<lparr>Status := StatusNotFound\<rparr>)"
    by simp_all
  from absent_entity_answers[of demo_lib ?put _ demo_service demo_result "''alice:k:7:T:S:G:B''" ?p]
    p a d f h
  have 3: "fst (blog_Put demo_lib ?put demo_result demo_service) =
       (Done (Some ''Unexpected database result (no rows modified)''),
        demo_result\<lparr>Status := StatusInternalServerError\<rparr>)"
    by simp
  from absent_entity_answers[of demo_lib ?del _ demo_service demo_result "''alice:k:7''" _ ?d]
    p a d f h
  have 4: "Status (snd (fst (blog_Delete demo_lib ?del demo_result demo_service))) =
       StatusInternalServerError"
    by simp
  from g2 h 1 2 3 4 show ?thesis by simp
qed

subsection \<open>What the update writes\<close>

lemma tags_kept:
  "map bl_tag (map (\<lambda>a. if P a then a\<lparr>bl_title := t, bl_subtitle := st\<rparr> else a) xs) = map bl_tag xs"
  "map bl_id (map (\<lambda>a. if P a then a\<lparr>bl_title := t, bl_subtitle := st\<rparr> else a) xs) = map bl_id xs"
  "map bl_content_id (map (\<lambda>a. if P a then a\<lparr>bl_title := t, bl_subtitle := st\<rparr> else a) xs)
     = map bl_content_id xs"
  by (induction xs) auto

lemma content_keys_kept:
  "map pc_id (map (\<lambda>b. if P b then b\<lparr>pc_updated := u, pc_body := bd\<rparr> else b) xs) = map pc_id xs"
  "map pc_created (map (\<lambda>b. if P b then b\<lparr>pc_updated := u, pc_body := bd\<rparr> else b) xs)
     = map pc_created xs"
  by (induction xs) auto

text \<open>
  Claim C10. A blog \<open>Put\<close> leaves the stored \<open>tag\<close> column (and the keys of both tables)
  as it was: the update writes only title, subtitle, updated and body. The success
  response nonetheless carries the tag of the request.
\<close>

theorem put_keeps_tag:
  assumes run: "blog_Put L rq re s = ((out, re'), s')"
  shows "map bl_tag (blog_pages (Database s')) = map bl_tag (blog_pages (Database s))
    \<and> map bl_id (blog_pages (Database s')) = map bl_id (blog_pages (Database s))
    \<and> map bl_content_id (blog_pages (Database s')) = map bl_content_id (blog_pages (Database s))
    \<and> map pc_id (page_content (Database s')) = map pc_id (page_content (Database s))
    \<and> map pc_created (page_content (Database s')) = map pc_created (page_content (Database s))
    \<and> static_pages (Database s') = static_pages (Database s)
    \<and> (\<forall>body post. rq_Body rq = Inr body \<and> UnmarshalBlogPut L body = Inr post \<and> out = Done None
         \<longrightarrow> (\<exists>r. Buffer re' = Some (JBlogPut r) \<and> bur_Tag r = bu_Tag (ad_Data post)))"
  using run
  by (auto simp: blog_Put_def Authorized_def Connection_def updateRecord_def ExecContext_def
      emit_def fail_def Marshal_def Let_def tags_kept content_keys_kept
      split: sum.splits option.splits prod.splits if_splits outcome.splits)

theorem put_keeps_tag_witness:
  "(let r = blog_Put demo_lib (demo_request ''alice:k:1:T:S:G:B'') demo_result demo_service
    in fst (fst r) = Done None
       \<and> map bl_tag (blog_pages demo_database) = [''news'']
       \<and> map bl_tag (blog_pages (Database (snd r))) = [''news'']
       \<and> (\<exists>j. Buffer (snd (fst r)) = Some (JBlogPut j) \<and> bur_Tag j = ''G''))"
proof -
  let ?rq = "demo_request ''alice:k:1:T:S:G:B''"
  let ?r = "blog_Put demo_lib ?rq demo_result demo_service"
  let ?p = "\<lparr>ad_Username = ''alice'', ad_Secret = ''k'',
              ad_Data = \<lparr>bu_ID = ''1'', bu_Title = ''T'', bu_Subtitle = ''S'', bu_Tag = ''G'',
                         bu_Body = ''B''\<rparr>\<rparr>"
  have 1: "rq_Body ?rq = Inr ''alice:k:1:T:S:G:B''"
    and 2: "UnmarshalBlogPut demo_lib ''alice:k:1:T:S:G:B'' = Inr ?p"
    by (simp_all add: demo_request_def demo_lib_def)
  have 3: "fst (fst ?r) = Done None" by code_simp
  have 4: "map bl_tag (blog_pages (Database demo_service)) = [''news'']"
    by (simp add: demo_service_def demo_database_def)
  have 5: "?r = ((fst (fst ?r), snd (fst ?r)), snd ?r)" by simp
  have 6: "Database demo_service = demo_database" by (simp add: demo_service_def)
  from put_keeps_tag[OF 5] 1 2 3 4
  have "map bl_tag (blog_pages (Database (snd ?r))) = [''news'']"
    "\<exists>j. Buffer (snd (fst ?r)) = Some (JBlogPut j) \<and> bur_Tag j = ''G''"
    by auto
  with 3 4 6 show ?thesis by (simp add: Let_def)
qed

subsection \<open>The delete path\<close>

text \<open>
  Claim C4 fails on the code. An authorized \<open>Delete\<close> of an id that matches no stored
  row affects 0 rows, not 2: the handler builds the error, sets status 500, drops the
  error and returns \<open>nil\<close>.
\<close>

theorem delete_discards_error:
  "fst (blog_Delete demo_lib (demo_request ''alice:k:7'') demo_result demo_service)
     = (Done None, \<lparr>Status = StatusInternalServerError, Buffer = None\<rparr>)"
  by code_simp

text \<open>
  Claim C9 fails on the code. When the store fails the delete statement,
  \<open>Connection\<close> returns \<open>(nil, err)\<close>; the handler calls \<open>fail\<close> without returning and
  goes on to \<open>r.RowsAffected()\<close> on the nil result, which panics.
\<close>

theorem delete_nil_result_panics:
  "fst (fst (blog_Delete demo_lib (demo_request ''alice:k:1'') demo_result demo_service_failing))
     = Panic"
  by code_simp

end
